theory Spec2Isabelle
  imports Main
begin

section \<open>The icon-size registrar (panel-stock-icons.c)\<close>

text \<open>
  A \<open>gint\<close> and a \<open>GtkIconSize\<close> token are integers. The registrar only compares the
  stored sizes with zero and hands them on, so no machine arithmetic is involved.
\<close>

type_synonym gint = int
type_synonym GtkIconSize = int

text \<open>
  The three default sizes are macros of the header panel-stock-icons.h, which is not
  among the sources: they are taken as parameters.
\<close>

record icon_size_constants =
  PANEL_DEFAULT_MENU_ICON_SIZE :: gint
  PANEL_DEFAULT_MENU_BAR_ICON_SIZE :: gint
  PANEL_ADD_TO_DEFAULT_ICON_SIZE :: gint

text \<open>
  The values \<open>g_settings_get_enum\<close> answers for the two keys of the menu-bar schema.
\<close>

record menu_bar_settings =
  item_icon_size :: gint
  icon_size :: gint

text \<open>
  The toolkit is an external library. Its part of the state is the sequence of
  registrations it was asked for (name, width, height), and the token it answers is a
  parameter \<open>token\<close> of that sequence and of the request.
\<close>

type_synonym gtk_icon_sizes = "(string \<times> gint \<times> gint) list"

record stock_icons =
  panel_menu_icon_size :: GtkIconSize
  panel_menu_bar_icon_size :: GtkIconSize
  panel_add_to_icon_size :: GtkIconSize
  gtk_registered :: gtk_icon_sizes

text \<open>The three file-level statics start at 0.\<close>

definition stock_icons_start :: "gtk_icon_sizes \<Rightarrow> stock_icons" where
  "stock_icons_start reg =
     \<lparr>panel_menu_icon_size = 0, panel_menu_bar_icon_size = 0,
      panel_add_to_icon_size = 0, gtk_registered = reg\<rparr>"

definition panel_menu_icon_get_size :: "stock_icons \<Rightarrow> GtkIconSize" where
  "panel_menu_icon_get_size st = panel_menu_icon_size st"

definition panel_menu_bar_icon_get_size :: "stock_icons \<Rightarrow> GtkIconSize" where
  "panel_menu_bar_icon_get_size st = panel_menu_bar_icon_size st"

definition panel_add_to_icon_get_size :: "stock_icons \<Rightarrow> GtkIconSize" where
  "panel_add_to_icon_get_size st = panel_add_to_icon_size st"

definition gtk_icon_size_register ::
  "(gtk_icon_sizes \<Rightarrow> string \<Rightarrow> gint \<Rightarrow> gint \<Rightarrow> GtkIconSize) \<Rightarrow> gtk_icon_sizes \<Rightarrow>
     string \<Rightarrow> gint \<Rightarrow> gint \<Rightarrow> GtkIconSize \<times> gtk_icon_sizes" where
  "gtk_icon_size_register token reg name w h = (token reg name w h, reg @ [(name, w, h)])"

definition panel_init_stock_icons_and_items ::
  "(gtk_icon_sizes \<Rightarrow> string \<Rightarrow> gint \<Rightarrow> gint \<Rightarrow> GtkIconSize) \<Rightarrow> icon_size_constants \<Rightarrow>
     menu_bar_settings \<Rightarrow> stock_icons \<Rightarrow> stock_icons" where
  "panel_init_stock_icons_and_items token k settings st =
     (let sz1 = item_icon_size settings;
          (t1, r1) =
            (if sz1 \<le> 0
             then gtk_icon_size_register token (gtk_registered st) ''panel-menu''
                    (PANEL_DEFAULT_MENU_ICON_SIZE k) (PANEL_DEFAULT_MENU_ICON_SIZE k)
             else gtk_icon_size_register token (gtk_registered st) ''__panel-menu'' sz1 sz1);
          sz2 = icon_size settings;
          (t2, r2) =
            (if sz2 \<le> 0
             then gtk_icon_size_register token r1 ''panel-foobar''
                    (PANEL_DEFAULT_MENU_BAR_ICON_SIZE k) (PANEL_DEFAULT_MENU_BAR_ICON_SIZE k)
             else gtk_icon_size_register token r1 ''__panel-foobar'' sz2 sz2);
          (t3, r3) =
            gtk_icon_size_register token r2 ''panel-add-to''
              (PANEL_ADD_TO_DEFAULT_ICON_SIZE k) (PANEL_ADD_TO_DEFAULT_ICON_SIZE k)
      in \<lparr>panel_menu_icon_size = t1, panel_menu_bar_icon_size = t2,
          panel_add_to_icon_size = t3, gtk_registered = r3\<rparr>)"

text \<open>The registrations a run of the initialiser adds to the toolkit's sequence.\<close>

definition added_registrations ::
  "(gtk_icon_sizes \<Rightarrow> string \<Rightarrow> gint \<Rightarrow> gint \<Rightarrow> GtkIconSize) \<Rightarrow> icon_size_constants \<Rightarrow>
     menu_bar_settings \<Rightarrow> gtk_icon_sizes \<Rightarrow> gtk_icon_sizes" where
  "added_registrations token k settings reg =
     drop (length reg)
       (gtk_registered (panel_init_stock_icons_and_items token k settings (stock_icons_start reg)))"

section \<open>The action button (panel-action-button.c)\<close>

subsection \<open>C strings and the library functions the module calls\<close>

text \<open>
  A C string is the list of its bytes before the terminating NUL, so a list that models
  one holds no NUL byte. The functions below are those of the C library and of GLib that
  the module calls, written after their documentation for the arguments the module
  passes; the end of the list stands for the terminator, whose value is 0.
\<close>

definition cstring :: "string \<Rightarrow> bool" where
  "cstring s = (CHR 0x00 \<notin> set s)"

definition uchar :: "char \<Rightarrow> int" where
  "uchar c = int (of_char c)"

fun strncmp :: "string \<Rightarrow> string \<Rightarrow> nat \<Rightarrow> int" where
  "strncmp s1 s2 0 = 0"
| "strncmp [] [] (Suc n) = 0"
| "strncmp [] (c2 # s2) (Suc n) = - uchar c2"
| "strncmp (c1 # s1) [] (Suc n) = uchar c1"
| "strncmp (c1 # s1) (c2 # s2) (Suc n) =
     (if c1 \<noteq> c2 then uchar c1 - uchar c2 else strncmp s1 s2 n)"

fun strcmp :: "string \<Rightarrow> string \<Rightarrow> int" where
  "strcmp [] [] = 0"
| "strcmp [] (c2 # s2) = - uchar c2"
| "strcmp (c1 # s1) [] = uchar c1"
| "strcmp (c1 # s1) (c2 # s2) = (if c1 \<noteq> c2 then uchar c1 - uchar c2 else strcmp s1 s2)"

text \<open>GLib's \<open>g_ascii_tolower\<close> maps \<open>A\<close>..\<open>Z\<close> only, whatever the locale.\<close>

definition g_ascii_tolower :: "char \<Rightarrow> char" where
  "g_ascii_tolower c =
     (if (of_char (CHR ''A'') :: nat) \<le> of_char c \<and> (of_char c :: nat) \<le> of_char (CHR ''Z'')
      then char_of ((of_char c :: nat) + 32) else c)"

text \<open>
  \<open>g_ascii_strcasecmp\<close> compares the lowered bytes while both strings last, and the
  raw bytes at the first end.
\<close>

fun g_ascii_strcasecmp :: "string \<Rightarrow> string \<Rightarrow> int" where
  "g_ascii_strcasecmp [] [] = 0"
| "g_ascii_strcasecmp [] (c2 # s2) = - uchar c2"
| "g_ascii_strcasecmp (c1 # s1) [] = uchar c1"
| "g_ascii_strcasecmp (c1 # s1) (c2 # s2) =
     (if g_ascii_tolower c1 \<noteq> g_ascii_tolower c2
      then uchar (g_ascii_tolower c1) - uchar (g_ascii_tolower c2)
      else g_ascii_strcasecmp s1 s2)"

text \<open>
  \<open>g_strsplit (string, ":", 0)\<close>: the pieces between the delimiters, empty pieces kept,
  and no piece at all for the empty string. The scan carries the piece read so far.
  (With \<open>max_tokens = 0\<close> GLib stops splitting after \<open>G_MAXINT\<close> pieces; strings of
  that size are outside the model.) The result is a NULL-terminated vector, so reading
  element \<open>i\<close> answers NULL from the end of the pieces on.
\<close>

fun split_scan :: "char \<Rightarrow> string \<Rightarrow> string \<Rightarrow> string list" where
  "split_scan d piece [] = [piece]"
| "split_scan d piece (c # cs) =
     (if c = d then piece # split_scan d [] cs else split_scan d (piece @ [c]) cs)"

definition g_strsplit :: "string \<Rightarrow> char \<Rightarrow> string list" where
  "g_strsplit s d = (if s = [] then [] else split_scan d [] s)"

definition element :: "string list \<Rightarrow> nat \<Rightarrow> string option" where
  "element elements i = (if i < length elements then Some (elements ! i) else None)"

text \<open>
  \<open>strtol (s, NULL, 10)\<close>: white space is skipped, one sign is read, then the decimal
  digits up to the first other byte; no digit at all gives 0, and a value outside
  \<open>long\<close> gives \<open>LONG_MAX\<close> or \<open>LONG_MIN\<close>. The width of \<open>long\<close> is a parameter.
\<close>

definition isspace :: "char \<Rightarrow> bool" where
  "isspace c = (c = CHR '' '' \<or> (9 \<le> (of_char c :: nat) \<and> (of_char c :: nat) \<le> 13))"

definition isdigit :: "char \<Rightarrow> bool" where
  "isdigit c = ((of_char (CHR ''0'') :: nat) \<le> of_char c \<and> (of_char c :: nat) \<le> of_char (CHR ''9''))"

definition digit_value :: "char \<Rightarrow> int" where
  "digit_value c = uchar c - uchar (CHR ''0'')"

definition strtol_sign :: "string \<Rightarrow> bool \<times> string" where
  "strtol_sign s =
     (case s of
        [] \<Rightarrow> (False, [])
      | c # cs \<Rightarrow> if c = CHR ''-'' then (True, cs) else if c = CHR ''+'' then (False, cs)
                 else (False, s))"

definition strtol_digits :: "string \<Rightarrow> string" where
  "strtol_digits s = takeWhile isdigit (snd (strtol_sign (dropWhile isspace s)))"

definition strtol :: "nat \<Rightarrow> string \<Rightarrow> int" where
  "strtol long_bit s =
     (let negative = fst (strtol_sign (dropWhile isspace s));
          v = foldl (\<lambda>acc c. acc * 10 + digit_value c) 0 (strtol_digits s);
          long_max = 2 ^ (long_bit - 1) - 1;
          long_min = - (2 ^ (long_bit - 1))
      in if negative then max long_min (- v) else min long_max v)"

text \<open>
  Storing a \<open>long\<close> in an \<open>int\<close>: the value is kept when it fits in 32 bits and wraps
  around otherwise (the conversion GCC defines).
\<close>

definition gint_of_long :: "int \<Rightarrow> gint" where
  "gint_of_long v = (v + 2 ^ 31) mod 2 ^ 32 - 2 ^ 31"

text \<open>\<open>printf\<close>'s \<open>%d\<close> and \<open>%s\<close> (glibc prints a NULL string as \<open>(null)\<close>).\<close>

fun decimal :: "nat \<Rightarrow> string" where
  "decimal n =
     (if n < 10 then [char_of (48 + n)] else decimal (n div 10) @ [char_of (48 + n mod 10)])"

definition printf_d :: "gint \<Rightarrow> string" where
  "printf_d i = (if i < 0 then CHR ''-'' # decimal (nat (- i)) else decimal (nat i))"

definition printf_s :: "string option \<Rightarrow> string" where
  "printf_s s = (case s of None \<Rightarrow> ''(null)'' | Some t \<Rightarrow> t)"

subsection \<open>Action types and their names\<close>

text \<open>
  Modelled from the spec: the enumeration \<open>PanelActionButtonType\<close> is declared in a
  header that is not among the sources. The spec lists its members in this order, the
  initialisers of the two tables follow it, and the code relies on the first being 0
  (\<open>if (!type)\<close>) and on \<open>PANEL_ACTION_LAST\<close> closing the range. The code passes these
  values as \<open>gint\<close> and checks their range, so they are integers here.
\<close>

definition PANEL_ACTION_NONE :: gint where "PANEL_ACTION_NONE = 0"
definition PANEL_ACTION_LOCK :: gint where "PANEL_ACTION_LOCK = 1"
definition PANEL_ACTION_LOGOUT :: gint where "PANEL_ACTION_LOGOUT = 2"
definition PANEL_ACTION_RUN :: gint where "PANEL_ACTION_RUN = 3"
definition PANEL_ACTION_SEARCH :: gint where "PANEL_ACTION_SEARCH = 4"
definition PANEL_ACTION_FORCE_QUIT :: gint where "PANEL_ACTION_FORCE_QUIT = 5"
definition PANEL_ACTION_CONNECT_SERVER :: gint where "PANEL_ACTION_CONNECT_SERVER = 6"
definition PANEL_ACTION_SHUTDOWN :: gint where "PANEL_ACTION_SHUTDOWN = 7"
definition PANEL_ACTION_LAST :: gint where "PANEL_ACTION_LAST = 8"

definition panel_action_type :: "string list" where
  "panel_action_type =
     [''none'', ''lock'', ''logout'', ''run'', ''search'', ''force-quit'', ''connect-server'',
      ''shutdown'']"

definition get_action_type_name :: "gint \<Rightarrow> string option" where
  "get_action_type_name id' =
     (if id' \<ge> 0 \<and> id' < PANEL_ACTION_LAST then Some (panel_action_type ! nat id') else None)"

text \<open>
  The loop of \<open>get_action_type_id\<close> over the table, from index \<open>i\<close> on; the pair is the
  returned flag and the value left in \<open>*id\<close>.
\<close>

fun get_action_type_id_from :: "gint \<Rightarrow> string list \<Rightarrow> string \<Rightarrow> bool \<times> gint" where
  "get_action_type_id_from i [] name = (False, 0)"
| "get_action_type_id_from i (t # ts) name =
     (if g_ascii_strcasecmp t name = 0 then (True, i)
      else get_action_type_id_from (i + 1) ts name)"

definition get_action_type_id :: "string \<Rightarrow> bool \<times> gint" where
  "get_action_type_id name = get_action_type_id_from 0 panel_action_type name"

subsection \<open>The process and its collaborators\<close>

text \<open>
  What is fixed for a run of the panel: whether Wayland support was compiled in
  (\<open>HAVE_WAYLAND\<close>, set by configure.ac), the width of \<open>long\<close>, the message catalogue
  behind the macro \<open>_()\<close>, and the icon names, which are macros of the header
  panel-icon-names.h (not among the sources) and are taken as parameters.
\<close>

record panel_config =
  HAVE_WAYLAND :: bool
  LONG_BIT :: nat
  gettext :: "string \<Rightarrow> string"
  PANEL_ICON_LOCKSCREEN :: string
  PANEL_ICON_LOGOUT :: string
  PANEL_ICON_RUN :: string
  PANEL_ICON_SEARCHTOOL :: string
  PANEL_ICON_FORCE_QUIT :: string
  PANEL_ICON_REMOTE :: string
  PANEL_ICON_SHUTDOWN :: string

text \<open>
  What the collaborators answer at the moment of a call: the lockdown policy, the screen
  locker, the display backend and the session manager. Each field bears the name of the
  function or macro the module calls.
\<close>

record environment =
  panel_lockdown_get_disable_lock_screen :: bool
  panel_lockdown_get_disable_log_out :: bool
  panel_lockdown_get_disable_command_line :: bool
  panel_lockdown_get_disable_force_quit :: bool
  panel_lock_screen_action_available :: "string \<Rightarrow> bool"
  GDK_IS_WAYLAND_DISPLAY :: bool
  panel_session_manager_is_shutdown_available :: bool

subsection \<open>The enablement hooks\<close>

definition screensaver_enabled :: "environment \<Rightarrow> bool" where
  "screensaver_enabled env =
     (if panel_lockdown_get_disable_lock_screen env then False
      else panel_lock_screen_action_available env ''lock'')"

definition panel_action_lock_is_disabled :: "panel_config \<Rightarrow> environment \<Rightarrow> bool" where
  "panel_action_lock_is_disabled cfg env = (\<not> screensaver_enabled env)"

definition panel_action_shutdown_reboot_is_disabled ::
  "panel_config \<Rightarrow> environment \<Rightarrow> bool" where
  "panel_action_shutdown_reboot_is_disabled cfg env =
     (if panel_lockdown_get_disable_log_out env then True
      else if HAVE_WAYLAND cfg \<and>
              (\<not> panel_lockdown_get_disable_log_out env \<and> GDK_IS_WAYLAND_DISPLAY env)
      then False
      else \<not> panel_session_manager_is_shutdown_available env)"

subsection \<open>The table of actions\<close>

text \<open>
  A \<open>char *\<close> of the table is an optional string (NULL is \<open>None\<close>), and a function
  pointer is an optional hook. The hooks that the properties below do not run are kept
  by name; an enablement hook is the function it points to. The field \<open>text\<close> of the
  source is \<open>label_text\<close> here.
\<close>

datatype invoke_hook =
  panel_action_lock_screen | panel_action_logout | panel_action_shutdown
  | panel_action_run_program | panel_action_search | panel_action_force_quit
  | panel_action_connect_server

datatype setup_menu_hook = panel_action_lock_setup_menu

datatype invoke_menu_hook = panel_action_lock_invoke_menu

record PanelAction =
  icon_name :: "string option"
  label_text :: "string option"
  tooltip :: "string option"
  help_index :: "string option"
  drag_id :: "string option"
  invoke :: "invoke_hook option"
  setup_menu :: "setup_menu_hook option"
  invoke_menu :: "invoke_menu_hook option"
  is_disabled :: "(panel_config \<Rightarrow> environment \<Rightarrow> bool) option"

definition actions :: "panel_config \<Rightarrow> PanelAction list" where
  "actions cfg =
     [\<lparr>icon_name = None, label_text = None, tooltip = None, help_index = None,
       drag_id = None, invoke = None, setup_menu = None, invoke_menu = None,
       is_disabled = None\<rparr>,
      \<lparr>icon_name = Some (PANEL_ICON_LOCKSCREEN cfg),
       label_text = Some ''Lock Screen'',
       tooltip = Some ''Protect your computer from unauthorized use'',
       help_index = Some ''gospanel-21'',
       drag_id = Some ''ACTION:lock:NEW'',
       invoke = Some panel_action_lock_screen,
       setup_menu = Some panel_action_lock_setup_menu,
       invoke_menu = Some panel_action_lock_invoke_menu,
       is_disabled = Some panel_action_lock_is_disabled\<rparr>,
      \<lparr>icon_name = Some (PANEL_ICON_LOGOUT cfg),
       label_text = Some ''Log Out...'',
       tooltip = Some ''Log out of this session to log in as a different user'',
       help_index = Some ''gospanel-20'',
       drag_id = Some ''ACTION:logout:NEW'',
       invoke = Some panel_action_logout, setup_menu = None, invoke_menu = None,
       is_disabled = Some (\<lambda>cfg env. panel_lockdown_get_disable_log_out env)\<rparr>,
      \<lparr>icon_name = Some (PANEL_ICON_RUN cfg),
       label_text = Some ''Run Application...'',
       tooltip = Some ''Run an application by typing a command or choosing from a list'',
       help_index = Some ''gospanel-555'',
       drag_id = Some ''ACTION:run:NEW'',
       invoke = Some panel_action_run_program, setup_menu = None, invoke_menu = None,
       is_disabled = Some (\<lambda>cfg env. panel_lockdown_get_disable_command_line env)\<rparr>,
      \<lparr>icon_name = Some (PANEL_ICON_SEARCHTOOL cfg),
       label_text = Some ''Search for Files...'',
       tooltip = Some ''Locate documents and folders on this computer by name or content'',
       help_index = Some ''gospanel-554'',
       drag_id = Some ''ACTION:search:NEW'',
       invoke = Some panel_action_search, setup_menu = None, invoke_menu = None,
       is_disabled = None\<rparr>,
      \<lparr>icon_name = Some (PANEL_ICON_FORCE_QUIT cfg),
       label_text = Some ''Force Quit'',
       tooltip = Some ''Force a misbehaving application to quit'',
       help_index = Some ''gospanel-563'',
       drag_id = Some ''ACTION:force-quit:NEW'',
       invoke = Some panel_action_force_quit, setup_menu = None, invoke_menu = None,
       is_disabled = Some (\<lambda>cfg env. panel_lockdown_get_disable_force_quit env)\<rparr>,
      \<lparr>icon_name = Some (PANEL_ICON_REMOTE cfg),
       label_text = Some ''Connect to Server...'',
       tooltip = Some ''Connect to a remote computer or shared disk'',
       help_index = Some ''caja-server-connect'',
       drag_id = Some ''ACTION:connect-server:NEW'',
       invoke = Some panel_action_connect_server, setup_menu = None, invoke_menu = None,
       is_disabled = None\<rparr>,
      \<lparr>icon_name = Some (PANEL_ICON_SHUTDOWN cfg),
       label_text = Some ''Shut Down...'',
       tooltip = Some ''Shut down the computer'',
       help_index = Some ''gospanel-20'',
       drag_id = Some ''ACTION:shutdown:NEW'',
       invoke = Some panel_action_shutdown, setup_menu = None, invoke_menu = None,
       is_disabled = Some panel_action_shutdown_reboot_is_disabled\<rparr>]"

text \<open>
  The entry the code reads as \<open>actions [type]\<close>. Every read of the source is behind a
  range check or uses the type stored in a button, which stays inside the table.
\<close>

definition action :: "panel_config \<Rightarrow> gint \<Rightarrow> PanelAction" where
  "action cfg type' = actions cfg ! nat type'"

text \<open>A failed \<open>g_return_val_if_fail\<close> returns the given value at once.\<close>

definition panel_action_get_is_disabled :: "panel_config \<Rightarrow> environment \<Rightarrow> gint \<Rightarrow> bool" where
  "panel_action_get_is_disabled cfg env type' =
     (if \<not> (type' > PANEL_ACTION_NONE \<and> type' < PANEL_ACTION_LAST) then False
      else case is_disabled (action cfg type') of
             Some hook \<Rightarrow> hook cfg env
           | None \<Rightarrow> False)"

definition panel_action_get_icon_name :: "panel_config \<Rightarrow> gint \<Rightarrow> string option" where
  "panel_action_get_icon_name cfg type' =
     (if \<not> (type' > PANEL_ACTION_NONE \<and> type' < PANEL_ACTION_LAST) then None
      else icon_name (action cfg type'))"

definition panel_action_get_text :: "panel_config \<Rightarrow> gint \<Rightarrow> string option" where
  "panel_action_get_text cfg type' =
     (if \<not> (type' > PANEL_ACTION_NONE \<and> type' < PANEL_ACTION_LAST) then None
      else map_option (gettext cfg) (label_text (action cfg type')))"

definition panel_action_get_tooltip :: "panel_config \<Rightarrow> gint \<Rightarrow> string option" where
  "panel_action_get_tooltip cfg type' =
     (if \<not> (type' > PANEL_ACTION_NONE \<and> type' < PANEL_ACTION_LAST) then None
      else map_option (gettext cfg) (tooltip (action cfg type')))"

definition panel_action_get_drag_id :: "panel_config \<Rightarrow> gint \<Rightarrow> string option" where
  "panel_action_get_drag_id cfg type' =
     (if \<not> (type' > PANEL_ACTION_NONE \<and> type' < PANEL_ACTION_LAST) then None
      else drag_id (action cfg type'))"

subsection \<open>The button\<close>

text \<open>
  The private fields of the source (\<open>type\<close>, \<open>info\<close>, \<open>settings\<close>, \<open>dnd_enabled\<close>),
  followed by the state of the widget that the module writes through the toolkit and
  through the panel's helpers: icon, tooltip, accessible name and description, the
  activatable flag, the drag source with its icon, and the property notifications
  emitted so far. A pointer to an applet record or to a settings object is kept by its
  identifier.
\<close>

record PanelActionButton =
  priv_type :: gint
  priv_info :: "string option"
  priv_settings :: "string option"
  priv_dnd_enabled :: bool
  widget_icon_name :: "string option"
  widget_tooltip_text :: "string option"
  atk_name :: "string option"
  atk_description :: "string option"
  widget_activatable :: bool
  widget_has_window :: bool
  drag_source_targets :: "string list option"
  drag_source_icon_name :: "string option"
  notified :: "string list"

text \<open>
  Modelled from the spec: \<open>button_widget_set_icon_name\<close>,
  \<open>button_widget_set_activatable\<close>, \<open>panel_util_set_tooltip_text\<close> and
  \<open>panel_a11y_set_atk_name_desc\<close> are functions of this repository that are not among
  the sources. After the spec they update the icon, the tooltip and the accessibility
  label of the widget and push the enablement to its activatable state; the accessible
  name and description are each set when the argument is not NULL.
\<close>

definition button_widget_set_icon_name :: "PanelActionButton \<Rightarrow> string \<Rightarrow> PanelActionButton" where
  "button_widget_set_icon_name b name = b\<lparr>widget_icon_name := Some name\<rparr>"

definition button_widget_set_activatable :: "PanelActionButton \<Rightarrow> bool \<Rightarrow> PanelActionButton" where
  "button_widget_set_activatable b v = b\<lparr>widget_activatable := v\<rparr>"

definition panel_util_set_tooltip_text ::
  "PanelActionButton \<Rightarrow> string option \<Rightarrow> PanelActionButton" where
  "panel_util_set_tooltip_text b txt = b\<lparr>widget_tooltip_text := txt\<rparr>"

definition panel_a11y_set_atk_name_desc ::
  "PanelActionButton \<Rightarrow> string option \<Rightarrow> string option \<Rightarrow> PanelActionButton" where
  "panel_a11y_set_atk_name_desc b name desc =
     (let b1 = (case desc of None \<Rightarrow> b | Some d \<Rightarrow> b\<lparr>atk_description := Some d\<rparr>)
      in case name of None \<Rightarrow> b1 | Some n \<Rightarrow> b1\<lparr>atk_name := Some n\<rparr>)"

definition panel_action_button_update_sensitivity ::
  "panel_config \<Rightarrow> environment \<Rightarrow> PanelActionButton \<Rightarrow> PanelActionButton" where
  "panel_action_button_update_sensitivity cfg env b =
     (case is_disabled (action cfg (priv_type b)) of
        Some hook \<Rightarrow> button_widget_set_activatable b (\<not> hook cfg env)
      | None \<Rightarrow> b)"

text \<open>
  \<open>panel_action_button_init\<close> runs on the freshly allocated instance \<open>b\<close>, whose widget
  part the parent classes have set up.
\<close>

definition panel_action_button_init :: "PanelActionButton \<Rightarrow> PanelActionButton" where
  "panel_action_button_init b =
     b\<lparr>priv_type := PANEL_ACTION_NONE, priv_info := None, priv_dnd_enabled := False\<rparr>"

definition panel_action_button_set_type ::
  "panel_config \<Rightarrow> environment \<Rightarrow> PanelActionButton \<Rightarrow> gint \<Rightarrow> PanelActionButton" where
  "panel_action_button_set_type cfg env button type' =
     (if type' = 0 then button
      else if \<not> (type' > PANEL_ACTION_NONE \<and> type' < PANEL_ACTION_LAST) then button
      else if type' = priv_type button then button
      else
        let b1 = button\<lparr>priv_type := type'\<rparr>;
            b2 = (case icon_name (action cfg type') of
                    Some name \<Rightarrow> button_widget_set_icon_name b1 name
                  | None \<Rightarrow> b1);
            b3 = panel_util_set_tooltip_text b2
                   (map_option (gettext cfg) (tooltip (action cfg type')));
            b4 = panel_a11y_set_atk_name_desc b3
                   (map_option (gettext cfg) (tooltip (action cfg type'))) None
        in panel_action_button_update_sensitivity cfg env b4)"

definition panel_action_button_style_updated ::
  "panel_config \<Rightarrow> PanelActionButton \<Rightarrow> PanelActionButton" where
  "panel_action_button_style_updated cfg button =
     (case icon_name (action cfg (priv_type button)) of
        Some name \<Rightarrow> button_widget_set_icon_name button name
      | None \<Rightarrow> button)"

text \<open>
  A \<open>gboolean\<close> is an integer; \<open>enabled != FALSE\<close> makes it a truth value. The toolkit
  calls set or remove the drag source of the widget.
\<close>

definition panel_action_button_set_dnd_enabled ::
  "panel_config \<Rightarrow> PanelActionButton \<Rightarrow> gint \<Rightarrow> PanelActionButton" where
  "panel_action_button_set_dnd_enabled cfg button enabled =
     (if priv_type button = 0 then button
      else
        let en = (enabled \<noteq> 0) in
        if priv_dnd_enabled button = en then button
        else
          let b1 =
                (if en then
                   let w1 = button\<lparr>widget_has_window := True\<rparr>;
                       w2 = w1\<lparr>drag_source_targets :=
                                 Some [''application/x-mate-panel-applet-internal''],
                               drag_source_icon_name := None\<rparr>;
                       w3 = (case icon_name (action cfg (priv_type button)) of
                               Some name \<Rightarrow> w2\<lparr>drag_source_icon_name := Some name\<rparr>
                             | None \<Rightarrow> w2)
                   in w3\<lparr>widget_has_window := False\<rparr>
                 else button\<lparr>drag_source_targets := None, drag_source_icon_name := None\<rparr>)
          in b1\<lparr>priv_dnd_enabled := en, notified := notified b1 @ [''dnd-enabled'']\<rparr>)"

text \<open>
  The life of a button after its construction: the calls that reach it, each with what
  the collaborators answer at that moment.
\<close>

datatype button_event =
  Set_type environment gint
  | Set_dnd_enabled gint
  | Lockdown_changed environment
  | Style_updated

fun button_step :: "panel_config \<Rightarrow> PanelActionButton \<Rightarrow> button_event \<Rightarrow> PanelActionButton" where
  "button_step cfg b (Set_type env t) = panel_action_button_set_type cfg env b t"
| "button_step cfg b (Set_dnd_enabled e) = panel_action_button_set_dnd_enabled cfg b e"
| "button_step cfg b (Lockdown_changed env) = panel_action_button_update_sensitivity cfg env b"
| "button_step cfg b Style_updated = panel_action_button_style_updated cfg b"

definition button_after ::
  "panel_config \<Rightarrow> PanelActionButton \<Rightarrow> button_event list \<Rightarrow> PanelActionButton" where
  "button_after cfg b0 events = foldl (button_step cfg) (panel_action_button_init b0) events"

subsection \<open>Drag and drop\<close>

text \<open>
  \<open>panel_action_button_drag_data_get\<close> hands the toolkit the bytes of
  \<open>g_strdup_printf ("ACTION:%s:%d", ...)\<close>; the index is what
  \<open>panel_find_applet_index\<close> answers for the widget.
\<close>

definition panel_action_button_drag_data_get :: "PanelActionButton \<Rightarrow> gint \<Rightarrow> string" where
  "panel_action_button_drag_data_get button applet_index =
     ''ACTION:'' @ printf_s (get_action_type_name (priv_type button)) @ '':''
       @ printf_d applet_index"

text \<open>
  The panel's profile, as far as this module changes it: the objects whose creation was
  requested, each with its toplevel, position and action type.
  \<open>panel_action_button_create\<close> prepares an object identifier, stores the type under it
  and adds the identifier to the list of objects.
\<close>

type_synonym panel_profile = "(string \<times> gint \<times> gint) list"

definition panel_action_button_create ::
  "panel_profile \<Rightarrow> string \<Rightarrow> gint \<Rightarrow> gint \<Rightarrow> panel_profile" where
  "panel_action_button_create profile toplevel position type' =
     profile @ [(toplevel, position, type')]"

text \<open>
  The result of \<open>panel_action_button_load_from_drag\<close>: the returned flag, what was
  written to \<open>*old_applet_idx\<close> (\<open>None\<close> when nothing was), and the profile afterwards.
\<close>

record drag_result =
  retval :: bool
  old_applet_idx :: "gint option"
  profile_after :: panel_profile

definition panel_action_button_load_from_drag ::
  "panel_config \<Rightarrow> panel_profile \<Rightarrow> string \<Rightarrow> gint \<Rightarrow> string \<Rightarrow> drag_result" where
  "panel_action_button_load_from_drag cfg profile toplevel position drag_string =
     (let rejected = \<lparr>retval = False, old_applet_idx = None, profile_after = profile\<rparr> in
      if strncmp drag_string ''ACTION:'' (length ''ACTION:'') \<noteq> 0 then rejected
      else
        let elements = g_strsplit drag_string (CHR '':'') in
        case element elements 1 of
          None \<Rightarrow> rejected
        | Some e1 \<Rightarrow>
           (case element elements 2 of
              None \<Rightarrow> rejected
            | Some e2 \<Rightarrow>
               (let (found, type') = get_action_type_id e1 in
                if \<not> found then rejected
                else if \<not> (type' > PANEL_ACTION_NONE \<and> type' < PANEL_ACTION_LAST)
                then rejected
                else
                  let (idx, r) =
                        (if strcmp e2 ''NEW'' \<noteq> 0
                         then (Some (gint_of_long (strtol (LONG_BIT cfg) e2)), True)
                         else (None, False))
                  in \<lparr>retval = r, old_applet_idx = idx,
                      profile_after =
                        panel_action_button_create profile toplevel position type'\<rparr>)))"

subsection \<open>Well-formed buttons\<close>

text \<open>
  A button is in step with the table when it is unbound, or bound to a type of the table
  and showing that type's icon, tooltip and accessible name, as the accessors of the
  table answer them.
\<close>

definition button_synced :: "panel_config \<Rightarrow> PanelActionButton \<Rightarrow> bool" where
  "button_synced cfg b =
     (priv_type b = PANEL_ACTION_NONE
      \<or> (priv_type b > PANEL_ACTION_NONE \<and> priv_type b < PANEL_ACTION_LAST
         \<and> widget_icon_name b = panel_action_get_icon_name cfg (priv_type b)
         \<and> widget_tooltip_text b = panel_action_get_tooltip cfg (priv_type b)
         \<and> atk_name b = panel_action_get_tooltip cfg (priv_type b)))"

subsection \<open>The specification's sentences that the code does not follow\<close>

text \<open>
  These two definitions follow the words of the specification, not the code; they are
  compared with the code below. The first is the enablement rule given for Shutdown
  (all three conditions at once). The second is the index a dropped token asks to
  remove: the \<open>strtol\<close> value of the third field, 0 when that field has no leading
  digits.
\<close>

definition shutdown_disabled_as_specified :: "panel_config \<Rightarrow> environment \<Rightarrow> bool" where
  "shutdown_disabled_as_specified cfg env =
     (panel_lockdown_get_disable_log_out env
      \<and> \<not> (HAVE_WAYLAND cfg \<and> GDK_IS_WAYLAND_DISPLAY env)
      \<and> \<not> panel_session_manager_is_shutdown_available env)"

definition moved_index_as_specified :: "nat \<Rightarrow> string \<Rightarrow> gint" where
  "moved_index_as_specified long_bit f =
     (if takeWhile isdigit f = [] then 0 else strtol long_bit f)"

subsection \<open>Concrete inputs for the examples\<close>

text \<open>
  A 64-bit build with Wayland support, the untranslated catalogue and the icon names of
  the freedesktop naming scheme; an X11 session in which nothing is locked down; two
  variations of it; and a freshly allocated button.
\<close>

definition example_config :: panel_config where
  "example_config =
     \<lparr>HAVE_WAYLAND = True, LONG_BIT = 64, gettext = (\<lambda>s. s),
      PANEL_ICON_LOCKSCREEN = ''system-lock-screen'', PANEL_ICON_LOGOUT = ''system-log-out'',
      PANEL_ICON_RUN = ''system-run'', PANEL_ICON_SEARCHTOOL = ''system-search'',
      PANEL_ICON_FORCE_QUIT = ''mate-panel-force-quit'',
      PANEL_ICON_REMOTE = ''applications-internet'',
      PANEL_ICON_SHUTDOWN = ''system-shutdown''\<rparr>"

definition example_environment :: environment where
  "example_environment =
     \<lparr>panel_lockdown_get_disable_lock_screen = False,
      panel_lockdown_get_disable_log_out = False,
      panel_lockdown_get_disable_command_line = False,
      panel_lockdown_get_disable_force_quit = False,
      panel_lock_screen_action_available = (\<lambda>action. True),
      GDK_IS_WAYLAND_DISPLAY = False,
      panel_session_manager_is_shutdown_available = True\<rparr>"

definition lock_forbidden :: environment where
  "lock_forbidden = example_environment\<lparr>panel_lockdown_get_disable_lock_screen := True\<rparr>"

definition shutdown_unavailable :: environment where
  "shutdown_unavailable =
     example_environment\<lparr>panel_session_manager_is_shutdown_available := False\<rparr>"

definition fresh_button :: PanelActionButton where
  "fresh_button =
     \<lparr>priv_type = 0, priv_info = None, priv_settings = None, priv_dnd_enabled = False,
      widget_icon_name = None, widget_tooltip_text = None, atk_name = None,
      atk_description = None, widget_activatable = True, widget_has_window = False,
      drag_source_targets = None, drag_source_icon_name = None, notified = []\<rparr>"

section \<open>Properties of the icon-size registrar\<close>

lemma init_registered:
  "gtk_registered (panel_init_stock_icons_and_items token k settings st) =
     gtk_registered st @
       [(if item_icon_size settings \<le> 0
         then (''panel-menu'', PANEL_DEFAULT_MENU_ICON_SIZE k, PANEL_DEFAULT_MENU_ICON_SIZE k)
         else (''__panel-menu'', item_icon_size settings, item_icon_size settings)),
        (if icon_size settings \<le> 0
         then (''panel-foobar'', PANEL_DEFAULT_MENU_BAR_ICON_SIZE k,
               PANEL_DEFAULT_MENU_BAR_ICON_SIZE k)
         else (''__panel-foobar'', icon_size settings, icon_size settings)),
        (''panel-add-to'', PANEL_ADD_TO_DEFAULT_ICON_SIZE k, PANEL_ADD_TO_DEFAULT_ICON_SIZE k)]"
  by (simp add: panel_init_stock_icons_and_items_def gtk_icon_size_register_def Let_def)

text \<open>
  Claim C7. For each of the two sizes read from the settings, a stored value that is zero
  or negative registers the built-in default under the plain name, and a positive value
  \<open>v\<close> registers \<open>v\<close> under the name with two leading underscores; the add-to size is
  always registered with its constant; the initialiser adds exactly these three
  registrations, in this order; and before the initialiser has run each of the three
  accessors answers the token 0.
\<close>

theorem icon_size_registrar:
  "added_registrations token k settings reg ! 0 =
     (if item_icon_size settings \<le> 0
      then (''panel-menu'', PANEL_DEFAULT_MENU_ICON_SIZE k, PANEL_DEFAULT_MENU_ICON_SIZE k)
      else (''__panel-menu'', item_icon_size settings, item_icon_size settings))
   \<and> added_registrations token k settings reg ! 1 =
     (if icon_size settings \<le> 0
      then (''panel-foobar'', PANEL_DEFAULT_MENU_BAR_ICON_SIZE k,
            PANEL_DEFAULT_MENU_BAR_ICON_SIZE k)
      else (''__panel-foobar'', icon_size settings, icon_size settings))
   \<and> added_registrations token k settings reg ! 2 =
     (''panel-add-to'', PANEL_ADD_TO_DEFAULT_ICON_SIZE k, PANEL_ADD_TO_DEFAULT_ICON_SIZE k)
   \<and> length (added_registrations token k settings reg) = 3
   \<and> panel_menu_icon_get_size (stock_icons_start reg) = 0
   \<and> panel_menu_bar_icon_get_size (stock_icons_start reg) = 0
   \<and> panel_add_to_icon_get_size (stock_icons_start reg) = 0"
  by (simp add: added_registrations_def init_registered stock_icons_start_def
      panel_menu_icon_get_size_def panel_menu_bar_icon_get_size_def
      panel_add_to_icon_get_size_def)

section \<open>Properties of the enablement table\<close>

lemmas action_consts =
  PANEL_ACTION_NONE_def PANEL_ACTION_LOCK_def PANEL_ACTION_LOGOUT_def PANEL_ACTION_RUN_def
  PANEL_ACTION_SEARCH_def PANEL_ACTION_FORCE_QUIT_def PANEL_ACTION_CONNECT_SERVER_def
  PANEL_ACTION_SHUTDOWN_def PANEL_ACTION_LAST_def

lemma valid_cases:
  "PANEL_ACTION_NONE < k \<Longrightarrow> k < PANEL_ACTION_LAST \<Longrightarrow>
   k = 1 \<or> k = 2 \<or> k = 3 \<or> k = 4 \<or> k = 5 \<or> k = 6 \<or> k = 7"
  by (auto simp: action_consts)

lemma hooks:
  "is_disabled (action cfg 0) = None"
  "is_disabled (action cfg 1) = Some panel_action_lock_is_disabled"
  "is_disabled (action cfg 2) = Some (\<lambda>cfg env. panel_lockdown_get_disable_log_out env)"
  "is_disabled (action cfg 3) = Some (\<lambda>cfg env. panel_lockdown_get_disable_command_line env)"
  "is_disabled (action cfg 4) = None"
  "is_disabled (action cfg 5) = Some (\<lambda>cfg env. panel_lockdown_get_disable_force_quit env)"
  "is_disabled (action cfg 6) = None"
  "is_disabled (action cfg 7) = Some panel_action_shutdown_reboot_is_disabled"
  by (simp_all add: action_def actions_def)

text \<open>
  Claim C6. For every type other than Shutdown the enablement query answers what the
  table says: Lock is disabled exactly when the lockdown forbids locking the screen or
  the screen locker cannot lock; Logout, Run and Force Quit are disabled exactly when
  their lockdown flag (log-out, command line, force-quit) is set; Search and Connect to
  Server are never disabled, whatever the lockdown and the session manager answer.
\<close>

theorem enablement_table:
  "panel_action_get_is_disabled cfg env PANEL_ACTION_LOCK =
     (panel_lockdown_get_disable_lock_screen env
      \<or> \<not> panel_lock_screen_action_available env ''lock'')
   \<and> panel_action_get_is_disabled cfg env PANEL_ACTION_LOGOUT =
       panel_lockdown_get_disable_log_out env
   \<and> panel_action_get_is_disabled cfg env PANEL_ACTION_RUN =
       panel_lockdown_get_disable_command_line env
   \<and> panel_action_get_is_disabled cfg env PANEL_ACTION_FORCE_QUIT =
       panel_lockdown_get_disable_force_quit env
   \<and> panel_action_get_is_disabled cfg env PANEL_ACTION_SEARCH = False
   \<and> panel_action_get_is_disabled cfg env PANEL_ACTION_CONNECT_SERVER = False"
  by (simp add: panel_action_get_is_disabled_def action_consts hooks
      panel_action_lock_is_disabled_def screensaver_enabled_def)

text \<open>
  Claim C1, as amended. For Shutdown the enablement query answers true exactly when the
  lockdown forbids log-out, or else when the process is not on a Wayland display of a
  build with Wayland support and the session manager reports that shutdown is
  unavailable. In particular, with log-out locked down and shutdown unavailable it
  answers true on every backend. (The specification joins the three conditions with
  "and"; the code returns true as soon as log-out is locked down, and also when only
  the session manager's answer is negative.)
\<close>

theorem shutdown_is_disabled:
  "panel_action_get_is_disabled cfg env PANEL_ACTION_SHUTDOWN =
     (panel_lockdown_get_disable_log_out env
      \<or> (\<not> (HAVE_WAYLAND cfg \<and> GDK_IS_WAYLAND_DISPLAY env)
         \<and> \<not> panel_session_manager_is_shutdown_available env))
   \<and> (panel_lockdown_get_disable_log_out env
        \<and> \<not> panel_session_manager_is_shutdown_available env
      \<longrightarrow> panel_action_get_is_disabled cfg env PANEL_ACTION_SHUTDOWN)"
  by (auto simp add: panel_action_get_is_disabled_def action_consts hooks
      panel_action_shutdown_reboot_is_disabled_def)

text \<open>
  An instance: log-out locked down and shutdown unavailable, on the X11 session of the
  examples.
\<close>

theorem shutdown_is_disabled_witness:
  "panel_lockdown_get_disable_log_out
      (example_environment\<lparr>panel_lockdown_get_disable_log_out := True,
         panel_session_manager_is_shutdown_available := False\<rparr>)
   \<and> \<not> panel_session_manager_is_shutdown_available
      (example_environment\<lparr>panel_lockdown_get_disable_log_out := True,
         panel_session_manager_is_shutdown_available := False\<rparr>)
   \<and> panel_action_get_is_disabled example_config
      (example_environment\<lparr>panel_lockdown_get_disable_log_out := True,
         panel_session_manager_is_shutdown_available := False\<rparr>) PANEL_ACTION_SHUTDOWN"
  using shutdown_is_disabled[of example_config
      "example_environment\<lparr>panel_lockdown_get_disable_log_out := True,
         panel_session_manager_is_shutdown_available := False\<rparr>"]
  by simp

text \<open>
  The rule of the specification fails on an X11 session in two ways: with log-out locked
  down while shutdown is available, and with shutdown unavailable while log-out is
  allowed. The code answers true in both; the rule answers false.
\<close>

theorem shutdown_is_disabled_counterexample:
  "panel_action_get_is_disabled example_config
     (example_environment\<lparr>panel_lockdown_get_disable_log_out := True\<rparr>) PANEL_ACTION_SHUTDOWN
     \<noteq> shutdown_disabled_as_specified example_config
         (example_environment\<lparr>panel_lockdown_get_disable_log_out := True\<rparr>)
   \<and> panel_action_get_is_disabled example_config shutdown_unavailable PANEL_ACTION_SHUTDOWN
     \<noteq> shutdown_disabled_as_specified example_config shutdown_unavailable"
  by (simp add: panel_action_get_is_disabled_def action_consts hooks
      panel_action_shutdown_reboot_is_disabled_def shutdown_disabled_as_specified_def
      shutdown_unavailable_def example_environment_def example_config_def)

section \<open>Properties of the button\<close>

lemma table_fields:
  assumes "PANEL_ACTION_NONE < k" "k < PANEL_ACTION_LAST"
  shows "icon_name (action cfg k) \<noteq> None" "tooltip (action cfg k) \<noteq> None"
  using valid_cases[OF assms] by (auto simp: action_def actions_def)

lemma set_type_changed:
  assumes "PANEL_ACTION_NONE < k" "k < PANEL_ACTION_LAST" "k \<noteq> priv_type b"
  shows "panel_action_button_set_type cfg env b k =
           panel_action_button_update_sensitivity cfg env
             (b\<lparr>priv_type := k, widget_icon_name := icon_name (action cfg k),
                widget_tooltip_text := map_option (gettext cfg) (tooltip (action cfg k)),
                atk_name := map_option (gettext cfg) (tooltip (action cfg k))\<rparr>)"
proof -
  from table_fields[OF assms(1,2), of cfg]
  obtain i t where "icon_name (action cfg k) = Some i" "tooltip (action cfg k) = Some t"
    by auto
  with assms show ?thesis
    by (simp add: panel_action_button_set_type_def action_consts Let_def
        button_widget_set_icon_name_def panel_util_set_tooltip_text_def
        panel_a11y_set_atk_name_desc_def)
qed

lemma update_sensitivity_fields:
  "priv_type (panel_action_button_update_sensitivity cfg env b) = priv_type b"
  "priv_dnd_enabled (panel_action_button_update_sensitivity cfg env b) = priv_dnd_enabled b"
  "widget_icon_name (panel_action_button_update_sensitivity cfg env b) = widget_icon_name b"
  "widget_tooltip_text (panel_action_button_update_sensitivity cfg env b) = widget_tooltip_text b"
  "atk_name (panel_action_button_update_sensitivity cfg env b) = atk_name b"
  by (simp_all add: panel_action_button_update_sensitivity_def button_widget_set_activatable_def
      split: option.splits)

lemma set_type_fields:
  assumes "PANEL_ACTION_NONE < k" "k < PANEL_ACTION_LAST" "k \<noteq> priv_type b"
  shows "priv_type (panel_action_button_set_type cfg env b k) = k"
    and "widget_icon_name (panel_action_button_set_type cfg env b k) =
           panel_action_get_icon_name cfg k"
    and "widget_tooltip_text (panel_action_button_set_type cfg env b k) =
           panel_action_get_tooltip cfg k"
    and "atk_name (panel_action_button_set_type cfg env b k) = panel_action_get_tooltip cfg k"
    and "priv_dnd_enabled (panel_action_button_set_type cfg env b k) = priv_dnd_enabled b"
  using assms
  by (simp_all add: set_type_changed update_sensitivity_fields panel_action_get_icon_name_def
      panel_action_get_tooltip_def)

lemma set_type_unchanged:
  "\<not> (PANEL_ACTION_NONE < k \<and> k < PANEL_ACTION_LAST) \<or> k = priv_type b \<Longrightarrow>
   panel_action_button_set_type cfg env b k = b"
  by (auto simp: panel_action_button_set_type_def action_consts)

lemma set_type_hooked:
  assumes "PANEL_ACTION_NONE < k" "k < PANEL_ACTION_LAST" "k \<noteq> priv_type b"
    and "k \<noteq> PANEL_ACTION_SEARCH" "k \<noteq> PANEL_ACTION_CONNECT_SERVER"
  shows "widget_activatable (panel_action_button_set_type cfg env b k) =
           (\<not> panel_action_get_is_disabled cfg env k)"
  using valid_cases[OF assms(1,2)] assms
  by (auto simp: set_type_changed panel_action_button_update_sensitivity_def hooks
      button_widget_set_activatable_def panel_action_get_is_disabled_def action_consts)

text \<open>Every call that reaches a button keeps it in step with the table.\<close>

lemma synced_init: "button_synced cfg (panel_action_button_init b0)"
  by (simp add: button_synced_def panel_action_button_init_def)

lemma synced_step: "button_synced cfg b \<Longrightarrow> button_synced cfg (button_step cfg b e)"
proof (cases e)
  case (Set_type env t)
  assume s: "button_synced cfg b"
  show ?thesis
  proof (cases "PANEL_ACTION_NONE < t \<and> t < PANEL_ACTION_LAST \<and> t \<noteq> priv_type b")
    case True
    then show ?thesis using Set_type by (simp add: button_synced_def set_type_fields)
  next
    case False
    then have "panel_action_button_set_type cfg env b t = b"
      by (intro set_type_unchanged) auto
    with s Set_type show ?thesis by simp
  qed
next
  case (Set_dnd_enabled x)
  assume "button_synced cfg b"
  then show ?thesis using Set_dnd_enabled
    by (auto simp: button_synced_def panel_action_button_set_dnd_enabled_def Let_def
        split: option.splits)
next
  case (Lockdown_changed env)
  assume "button_synced cfg b"
  then show ?thesis using Lockdown_changed
    by (simp add: button_synced_def update_sensitivity_fields)
next
  case Style_updated
  assume s: "button_synced cfg b"
  show ?thesis
  proof (cases "priv_type b = PANEL_ACTION_NONE")
    case True
    then show ?thesis using Style_updated s
      by (simp add: button_synced_def panel_action_button_style_updated_def hooks
          action_def actions_def PANEL_ACTION_NONE_def)
  next
    case False
    with s have v: "PANEL_ACTION_NONE < priv_type b" "priv_type b < PANEL_ACTION_LAST"
      and i: "widget_icon_name b = panel_action_get_icon_name cfg (priv_type b)"
      by (auto simp: button_synced_def)
    from table_fields(1)[OF v, of cfg]
    obtain n where n: "icon_name (action cfg (priv_type b)) = Some n"
      by auto
    with v i have "panel_action_button_style_updated cfg b = b"
      by (simp add: panel_action_button_style_updated_def button_widget_set_icon_name_def
          panel_action_get_icon_name_def)
    with s Style_updated show ?thesis by simp
  qed
qed

lemma button_after_snoc:
  "button_after cfg b0 (events @ [e]) = button_step cfg (button_after cfg b0 events) e"
  by (simp add: button_after_def)

lemma synced_after: "button_synced cfg (button_after cfg b0 events)"
proof (induction events rule: rev_induct)
  case Nil
  show ?case by (simp add: button_after_def synced_init)
next
  case (snoc e events)
  then show ?case by (simp add: button_after_snoc synced_step)
qed

text \<open>Drag and drop is enabled on bound buttons only.\<close>

lemma dnd_step:
  assumes "priv_dnd_enabled b \<longrightarrow> priv_type b \<noteq> PANEL_ACTION_NONE"
  shows "priv_dnd_enabled (button_step cfg b e) \<longrightarrow>
         priv_type (button_step cfg b e) \<noteq> PANEL_ACTION_NONE"
proof (cases e)
  case (Set_type env t)
  show ?thesis
  proof (cases "PANEL_ACTION_NONE < t \<and> t < PANEL_ACTION_LAST \<and> t \<noteq> priv_type b")
    case True
    then show ?thesis using Set_type by (simp add: set_type_fields)
  next
    case False
    then have "panel_action_button_set_type cfg env b t = b"
      by (intro set_type_unchanged) auto
    with assms Set_type show ?thesis by simp
  qed
next
  case (Set_dnd_enabled x)
  then show ?thesis using assms
    by (auto simp: panel_action_button_set_dnd_enabled_def Let_def PANEL_ACTION_NONE_def
        split: option.splits)
next
  case (Lockdown_changed env)
  then show ?thesis using assms by (simp add: update_sensitivity_fields)
next
  case Style_updated
  then show ?thesis using assms
    by (simp add: panel_action_button_style_updated_def button_widget_set_icon_name_def
        split: option.splits)
qed

lemma dnd_after:
  "priv_dnd_enabled (button_after cfg b0 events) \<longrightarrow>
   priv_type (button_after cfg b0 events) \<noteq> PANEL_ACTION_NONE"
proof (induction events rule: rev_induct)
  case Nil
  show ?case by (simp add: button_after_def panel_action_button_init_def)
next
  case (snoc e events)
  then show ?case unfolding button_after_snoc by (rule dnd_step)
qed

text \<open>The button of the examples, bound to Lock while locking is forbidden.\<close>

lemma after_lock:
  "button_after example_config fresh_button [Set_type lock_forbidden PANEL_ACTION_LOCK] =
     fresh_button\<lparr>priv_type := 1, widget_icon_name := Some ''system-lock-screen'',
       widget_tooltip_text := Some ''Protect your computer from unauthorized use'',
       atk_name := Some ''Protect your computer from unauthorized use'',
       widget_activatable := False\<rparr>"
  by (simp add: button_after_def panel_action_button_init_def fresh_button_def
      set_type_changed action_consts panel_action_button_update_sensitivity_def hooks
      button_widget_set_activatable_def panel_action_lock_is_disabled_def
      screensaver_enabled_def lock_forbidden_def example_environment_def
      action_def actions_def example_config_def)

text \<open>
  What holds of \<open>set_type\<close> with a valid type on every button the module can reach:
  the button is bound to the type and shows the table's icon name and translated
  tooltip, and its accessible name is the translated tooltip as well.
\<close>

lemma set_type_visuals:
  assumes "PANEL_ACTION_NONE < k" and "k < PANEL_ACTION_LAST"
  shows "priv_type (panel_action_button_set_type cfg env (button_after cfg b0 events) k) = k
   \<and> widget_icon_name (panel_action_button_set_type cfg env (button_after cfg b0 events) k) =
       panel_action_get_icon_name cfg k
   \<and> widget_tooltip_text (panel_action_button_set_type cfg env (button_after cfg b0 events) k) =
       panel_action_get_tooltip cfg k
   \<and> atk_name (panel_action_button_set_type cfg env (button_after cfg b0 events) k) =
       panel_action_get_tooltip cfg k"
proof (cases "k = priv_type (button_after cfg b0 events)")
  case True
  then have same: "panel_action_button_set_type cfg env (button_after cfg b0 events) k =
      button_after cfg b0 events"
    by (intro set_type_unchanged) simp
  from synced_after[of cfg b0 events] True assms show ?thesis
    unfolding same by (auto simp: button_synced_def)
next
  case False
  with assms show ?thesis
    by (simp add: set_type_fields)
qed

text \<open>
  For the two types without an enablement hook, \<open>set_type\<close> leaves the activatable
  state as it finds it: \<open>panel_action_button_update_sensitivity\<close> has no branch for a
  NULL hook.
\<close>

lemma set_type_hookless:
  assumes "k = PANEL_ACTION_SEARCH \<or> k = PANEL_ACTION_CONNECT_SERVER"
    and "k \<noteq> priv_type b"
  shows "widget_activatable (panel_action_button_set_type cfg env b k) = widget_activatable b"
  using assms
  by (auto simp: set_type_changed panel_action_button_update_sensitivity_def hooks
      action_consts)

text \<open>
  Claim C4. \<open>set_type\<close> with a valid type other than None is to bind the button to
  that type, show the table's icon, tooltip and accessibility label for it, and evaluate
  the enablement again. The code misses the last part when the new type has no
  enablement hook. A button is bound to Lock while the lockdown forbids locking the
  screen, so it is not activatable; the lockdown is lifted and the button is bound to
  Search. It is then bound to Search and shows the entries of Search, but it is still
  not activatable, although the enablement query answers that Search is not disabled.
\<close>

theorem set_type_search_not_enabled:
  "priv_type (panel_action_button_set_type example_config example_environment
       (button_after example_config fresh_button [Set_type lock_forbidden PANEL_ACTION_LOCK])
       PANEL_ACTION_SEARCH) = PANEL_ACTION_SEARCH
   \<and> widget_icon_name (panel_action_button_set_type example_config example_environment
       (button_after example_config fresh_button [Set_type lock_forbidden PANEL_ACTION_LOCK])
       PANEL_ACTION_SEARCH) = Some ''system-search''
   \<and> widget_tooltip_text (panel_action_button_set_type example_config example_environment
       (button_after example_config fresh_button [Set_type lock_forbidden PANEL_ACTION_LOCK])
       PANEL_ACTION_SEARCH) =
       Some ''Locate documents and folders on this computer by name or content''
   \<and> widget_activatable (panel_action_button_set_type example_config example_environment
       (button_after example_config fresh_button [Set_type lock_forbidden PANEL_ACTION_LOCK])
       PANEL_ACTION_SEARCH) = False
   \<and> panel_action_get_is_disabled example_config example_environment PANEL_ACTION_SEARCH
       = False"
proof -
  have v: "PANEL_ACTION_NONE < PANEL_ACTION_SEARCH" "PANEL_ACTION_SEARCH < PANEL_ACTION_LAST"
    by (simp_all add: action_consts)
  have n: "PANEL_ACTION_SEARCH \<noteq>
      priv_type (button_after example_config fresh_button
        [Set_type lock_forbidden PANEL_ACTION_LOCK])"
    unfolding after_lock by (simp add: action_consts)
  have g: "panel_action_get_icon_name example_config PANEL_ACTION_SEARCH =
             Some ''system-search''"
    "panel_action_get_tooltip example_config PANEL_ACTION_SEARCH =
             Some ''Locate documents and folders on this computer by name or content''"
    "panel_action_get_is_disabled example_config example_environment PANEL_ACTION_SEARCH
       = False"
    by (simp_all add: panel_action_get_icon_name_def panel_action_get_tooltip_def
        panel_action_get_is_disabled_def action_consts hooks action_def actions_def
        example_config_def)
  have a: "widget_activatable (panel_action_button_set_type example_config
       example_environment
       (button_after example_config fresh_button [Set_type lock_forbidden PANEL_ACTION_LOCK])
       PANEL_ACTION_SEARCH) = False"
    using set_type_hookless[OF disjI1 n, OF refl, of example_config example_environment]
    by (simp add: after_lock)
  from a g set_type_fields(1,2,3)[OF v n, of example_config example_environment]
  show ?thesis by simp
qed

text \<open>
  Claim C5. \<open>set_type\<close> with the type the button already has, or with None, returns the
  button as it was: every field of its state is unchanged, so neither the type nor the
  icon, tooltip or accessible name is touched and no notification is added.
\<close>

theorem set_type_noop:
  "panel_action_button_set_type cfg env button (priv_type button) = button
   \<and> panel_action_button_set_type cfg env button PANEL_ACTION_NONE = button"
  by (simp add: panel_action_button_set_type_def PANEL_ACTION_NONE_def)

text \<open>
  Claim C10. On an unbound button \<open>set_dnd_enabled\<close> changes nothing, whatever flag is
  passed: the state is returned as it was, so the flag stays as the constructor set it
  (false), no drag source is configured and no notification is emitted. The constructor
  leaves the button unbound with the flag off, and at every later moment of the
  button's life the flag is on only if the button is bound.
\<close>

theorem set_dnd_enabled_unbound:
  "(priv_type button = PANEL_ACTION_NONE \<longrightarrow>
      panel_action_button_set_dnd_enabled cfg button enabled = button)
   \<and> priv_type (panel_action_button_init b0) = PANEL_ACTION_NONE
   \<and> priv_dnd_enabled (panel_action_button_init b0) = False
   \<and> (priv_dnd_enabled (button_after cfg b0 events) \<longrightarrow>
        priv_type (button_after cfg b0 events) \<noteq> PANEL_ACTION_NONE)"
  using dnd_after[of cfg b0 events]
  by (simp add: panel_action_button_set_dnd_enabled_def panel_action_button_init_def
      PANEL_ACTION_NONE_def)

text \<open>
  An instance: enabling drag and drop on the new button does nothing, and after the
  button has been bound to Lock it takes effect.
\<close>

theorem set_dnd_enabled_unbound_witness:
  "priv_type fresh_button = PANEL_ACTION_NONE
   \<and> panel_action_button_set_dnd_enabled example_config fresh_button 1 = fresh_button
   \<and> priv_dnd_enabled (button_after example_config fresh_button
        [Set_type example_environment PANEL_ACTION_LOCK, Set_dnd_enabled 1])
   \<and> priv_type (button_after example_config fresh_button
        [Set_type example_environment PANEL_ACTION_LOCK, Set_dnd_enabled 1])
       \<noteq> PANEL_ACTION_NONE"
proof -
  have t: "priv_type fresh_button = PANEL_ACTION_NONE"
    by (simp add: fresh_button_def PANEL_ACTION_NONE_def)
  have d: "priv_dnd_enabled (button_after example_config fresh_button
        [Set_type example_environment PANEL_ACTION_LOCK, Set_dnd_enabled 1])"
    by (simp add: button_after_def panel_action_button_init_def fresh_button_def
        set_type_changed action_consts update_sensitivity_fields
        panel_action_button_set_dnd_enabled_def Let_def)
  show ?thesis
    using t d
      set_dnd_enabled_unbound[of fresh_button example_config 1 fresh_button
        "[Set_type example_environment PANEL_ACTION_LOCK, Set_dnd_enabled 1]"]
    by simp
qed

section \<open>Properties of the string functions\<close>

declare decimal.simps [simp del]

lemma uchar_eq_0: "(uchar c = 0) = (c = CHR 0x00)"
  by (cases c) (simp add: uchar_def)

lemma uchar_inj: "(uchar a = uchar b) = (a = b)"
  by (simp add: uchar_def)

lemma strncmp_prefix: "cstring l \<Longrightarrow> (strncmp s l (length l) = 0) = (take (length l) s = l)"
proof (induction l arbitrary: s)
  case Nil
  then show ?case by simp
next
  case (Cons c l)
  then have c: "c \<noteq> CHR 0x00" and l: "cstring l" by (auto simp: cstring_def)
  show ?case
  proof (cases s)
    case Nil
    with c show ?thesis by (simp add: uchar_eq_0)
  next
    case (Cons a s')
    with Cons.IH[OF l, of s'] show ?thesis by (simp add: uchar_inj)
  qed
qed

lemma strcmp_eq: "cstring a \<Longrightarrow> cstring b \<Longrightarrow> (strcmp a b = 0) = (a = b)"
  by (induction a b rule: strcmp.induct) (auto simp: cstring_def uchar_eq_0 uchar_inj)

lemma strcasecmp_eq:
  "cstring a \<Longrightarrow> cstring b \<Longrightarrow>
   (g_ascii_strcasecmp a b = 0) = (map g_ascii_tolower a = map g_ascii_tolower b)"
  by (induction a b rule: g_ascii_strcasecmp.induct) (auto simp: cstring_def uchar_eq_0 uchar_inj)

lemma tolower_code: "(of_char (g_ascii_tolower c) :: nat) =
   (if 65 \<le> (of_char c :: nat) \<and> (of_char c :: nat) \<le> 90 then of_char c + 32 else of_char c)"
  by (simp add: g_ascii_tolower_def)

lemma tolower_eq_iff:
  assumes "\<not> (97 \<le> (of_char x :: nat) \<and> (of_char x :: nat) \<le> 122)"
  shows "(g_ascii_tolower c = x) =
         (c = x \<and> \<not> (65 \<le> (of_char c :: nat) \<and> (of_char c :: nat) \<le> 90))"
proof (cases "65 \<le> (of_char c :: nat) \<and> (of_char c :: nat) \<le> 90")
  case True
  then have "(of_char (g_ascii_tolower c) :: nat) = of_char c + 32"
    by (simp add: tolower_code)
  with True assms have "g_ascii_tolower c \<noteq> x" by auto
  with True show ?thesis by simp
next
  case False
  then show ?thesis by (auto simp add: g_ascii_tolower_def)
qed

lemma tolower_colon: "(g_ascii_tolower c = CHR '':'') = (c = CHR '':'')"
  by (subst tolower_eq_iff) auto

lemma tolower_nul: "(g_ascii_tolower c = CHR 0x00) = (c = CHR 0x00)"
  by (subst tolower_eq_iff) auto

lemma tolower_nul_sym: "(CHR 0x00 = g_ascii_tolower c) = (c = CHR 0x00)"
  using tolower_nul[of c] by (cases "g_ascii_tolower c = CHR 0x00") simp_all

lemma tolower_colon_sym: "(CHR '':'' = g_ascii_tolower c) = (c = CHR '':'')"
  using tolower_colon[of c] by (cases "g_ascii_tolower c = CHR '':''") simp_all

lemma cstring_tolower: "cstring (map g_ascii_tolower s) = cstring s"
  by (induction s) (auto simp add: cstring_def tolower_nul_sym)

lemma colon_tolower: "(CHR '':'' \<in> set (map g_ascii_tolower s)) = (CHR '':'' \<in> set s)"
  by (induction s) (auto simp add: tolower_colon_sym)

lemma split_scan_append:
  "d \<notin> set a \<Longrightarrow> split_scan d p (a @ d # r) = (p @ a) # split_scan d [] r"
  by (induction a arbitrary: p) auto

lemma split_scan_nonempty: "split_scan d p s \<noteq> []"
  by (induction s arbitrary: p) auto

lemma split_scan_sets:
  "e \<in> set (split_scan d p s) \<Longrightarrow> set e \<subseteq> set p \<union> set s"
  by (induction s arbitrary: p) (fastforce split: if_splits)+

lemma split_scan_cstring:
  "cstring s \<Longrightarrow> e \<in> set (split_scan d [] s) \<Longrightarrow> cstring e"
  using split_scan_sets[of e d "[]" s] by (auto simp: cstring_def)

text \<open>A string has one field more than it has delimiters.\<close>

lemma split_scan_length: "length (split_scan d p s) = Suc (length (filter (\<lambda>c. c = d) s))"
  by (induction s arbitrary: p) auto

lemma split_scan_hd: "hd (split_scan d p r) = p @ takeWhile (\<lambda>c. c \<noteq> d) r"
  by (induction r arbitrary: p) auto

lemma split_scan_field:
  "d \<notin> set f \<Longrightarrow> extra = [] \<or> hd extra = d \<Longrightarrow> hd (split_scan d [] (f @ extra)) = f"
  by (cases extra) (auto simp: split_scan_hd takeWhile_append)

lemma long_max_ge: "32 \<le> n \<Longrightarrow> (2::int) ^ 31 \<le> 2 ^ (n - 1)"
  by (rule power_increasing) auto

lemma strtol_no_digits: "strtol_digits s = [] \<Longrightarrow> strtol n s = 0"
  by (simp add: strtol_def Let_def)

lemma strtol_3: "32 \<le> n \<Longrightarrow> strtol n ''3'' = 3"
  using long_max_ge[of n]
  by (simp add: strtol_def strtol_digits_def strtol_sign_def isspace_def isdigit_def
      digit_value_def uchar_def Let_def)

lemma decimal_3: "printf_d 3 = ''3''"
  by code_simp

section \<open>Properties of the drag token\<close>

text \<open>
  The lookup of a name in the table of type names, read off the lowered name: the loop
  answers the index of the name it equals, and fails with 0 for any other name.
\<close>

lemma get_action_type_id_lower:
  assumes "cstring name"
  shows "get_action_type_id name =
     (let l = map g_ascii_tolower name in
      if l = ''none'' then (True, 0) else if l = ''lock'' then (True, 1)
      else if l = ''logout'' then (True, 2) else if l = ''run'' then (True, 3)
      else if l = ''search'' then (True, 4) else if l = ''force-quit'' then (True, 5)
      else if l = ''connect-server'' then (True, 6) else if l = ''shutdown'' then (True, 7)
      else (False, 0))"
proof -
  have eq: "\<And>t. cstring t \<Longrightarrow> map g_ascii_tolower t = t \<Longrightarrow>
      (g_ascii_strcasecmp t name = 0) = (map g_ascii_tolower name = t)"
    using assms by (auto simp: strcasecmp_eq)
  have "(g_ascii_strcasecmp ''none'' name = 0) = (map g_ascii_tolower name = ''none'')"
       "(g_ascii_strcasecmp ''lock'' name = 0) = (map g_ascii_tolower name = ''lock'')"
       "(g_ascii_strcasecmp ''logout'' name = 0) = (map g_ascii_tolower name = ''logout'')"
       "(g_ascii_strcasecmp ''run'' name = 0) = (map g_ascii_tolower name = ''run'')"
       "(g_ascii_strcasecmp ''search'' name = 0) = (map g_ascii_tolower name = ''search'')"
       "(g_ascii_strcasecmp ''force-quit'' name = 0) =
          (map g_ascii_tolower name = ''force-quit'')"
       "(g_ascii_strcasecmp ''connect-server'' name = 0) =
          (map g_ascii_tolower name = ''connect-server'')"
       "(g_ascii_strcasecmp ''shutdown'' name = 0) = (map g_ascii_tolower name = ''shutdown'')"
    by (rule eq; simp add: cstring_def g_ascii_tolower_def)+
  then show ?thesis
    by (simp add: get_action_type_id_def panel_action_type_def Let_def)
qed

lemma names_valid:
  "k \<in> {1..7} \<Longrightarrow> map g_ascii_tolower name = panel_action_type ! k \<Longrightarrow>
   cstring name \<and> CHR '':'' \<notin> set name \<and> get_action_type_id name = (True, int k)"
proof -
  assume k: "k \<in> {1..7}" and m: "map g_ascii_tolower name = panel_action_type ! k"
  from k have ks: "k = 1 \<or> k = 2 \<or> k = 3 \<or> k = 4 \<or> k = 5 \<or> k = 6 \<or> k = 7" by auto
  have "cstring (panel_action_type ! k)" "CHR '':'' \<notin> set (panel_action_type ! k)"
    using ks by (auto simp: panel_action_type_def cstring_def)
  with m have c: "cstring name" and n: "CHR '':'' \<notin> set name"
    using cstring_tolower[of name] colon_tolower[of name] by auto
  have "get_action_type_id name = (True, int k)"
    using ks m by (auto simp: get_action_type_id_lower[OF c] panel_action_type_def)
  with c n show ?thesis by simp
qed

lemma prefix_ok: "strncmp (''ACTION:'' @ r) ''ACTION:'' (length ''ACTION:'') = 0"
  using strncmp_prefix[of "''ACTION:''" "''ACTION:'' @ r"] by (simp add: cstring_def)

lemma split_token:
  assumes "CHR '':'' \<notin> set name"
  shows "g_strsplit (''ACTION:'' @ name @ '':'' @ rest) (CHR '':'') =
           ''ACTION'' # name # split_scan (CHR '':'') [] rest"
proof -
  have "split_scan (CHR '':'') [] (''ACTION'' @ CHR '':'' # (name @ CHR '':'' # rest)) =
          ''ACTION'' # split_scan (CHR '':'') [] (name @ CHR '':'' # rest)"
    using split_scan_append[of "CHR '':''" "''ACTION''" "[]" "name @ CHR '':'' # rest"] by simp
  moreover have "split_scan (CHR '':'') [] (name @ CHR '':'' # rest) =
          name # split_scan (CHR '':'') [] rest"
    using split_scan_append[OF assms, of "[]" rest] by simp
  ultimately show ?thesis by (simp add: g_strsplit_def)
qed

text \<open>
  What the decoder does with a token that has the prefix and a name without a colon: the
  third element is the text up to the next colon, and the rest is decided by the lookup
  of the name, the range check and the comparison with \<open>NEW\<close>.
\<close>

lemma decode_token:
  assumes "CHR '':'' \<notin> set name"
  shows "panel_action_button_load_from_drag cfg profile toplevel position
           (''ACTION:'' @ name @ '':'' @ rest) =
         (let e2 = hd (split_scan (CHR '':'') [] rest);
              found = fst (get_action_type_id name); t = snd (get_action_type_id name) in
          if \<not> found
          then \<lparr>retval = False, old_applet_idx = None, profile_after = profile\<rparr>
          else if \<not> (t > PANEL_ACTION_NONE \<and> t < PANEL_ACTION_LAST)
          then \<lparr>retval = False, old_applet_idx = None, profile_after = profile\<rparr>
          else if strcmp e2 ''NEW'' \<noteq> 0
          then \<lparr>retval = True, old_applet_idx = Some (gint_of_long (strtol (LONG_BIT cfg) e2)),
                profile_after = profile @ [(toplevel, position, t)]\<rparr>
          else \<lparr>retval = False, old_applet_idx = None,
                profile_after = profile @ [(toplevel, position, t)]\<rparr>)"
proof -
  obtain e es where sp: "split_scan (CHR '':'') [] rest = e # es"
    using split_scan_nonempty[of "CHR '':''" "[]" rest]
    by (cases "split_scan (CHR '':'') [] rest") auto
  have pre: "strncmp (''ACTION:'' @ name @ '':'' @ rest) ''ACTION:'' (length ''ACTION:'') = 0"
    by (rule prefix_ok)
  show ?thesis
    unfolding panel_action_button_load_from_drag_def Let_def pre split_token[OF assms] sp
    by (simp add: element_def panel_action_button_create_def split: prod.splits)
qed

lemma decode_new:
  assumes "k \<in> {1..7}" and "map g_ascii_tolower name = panel_action_type ! k"
  shows "panel_action_button_load_from_drag cfg profile toplevel position
           (''ACTION:'' @ name @ '':'' @ ''NEW'') =
         \<lparr>retval = False, old_applet_idx = None,
          profile_after = profile @ [(toplevel, position, int k)]\<rparr>"
proof -
  from names_valid[OF assms]
  have n: "CHR '':'' \<notin> set name" and id: "get_action_type_id name = (True, int k)" by auto
  have rng: "int k > PANEL_ACTION_NONE \<and> int k < PANEL_ACTION_LAST"
    using assms(1) by (simp add: action_consts)
  show ?thesis
    using rng by (subst decode_token[OF n]) (simp add: id Let_def)
qed

lemma decode_moved:
  assumes "k \<in> {1..7}" and "map g_ascii_tolower name = panel_action_type ! k"
    and "cstring f" and "f \<noteq> ''NEW''" and "CHR '':'' \<notin> set f"
    and "extra = [] \<or> hd extra = CHR '':''"
  shows "panel_action_button_load_from_drag cfg profile toplevel position
           (''ACTION:'' @ name @ '':'' @ f @ extra) =
         \<lparr>retval = True,
          old_applet_idx = Some (gint_of_long (strtol (LONG_BIT cfg) f)),
          profile_after = profile @ [(toplevel, position, int k)]\<rparr>"
proof -
  from names_valid[OF assms(1,2)]
  have n: "CHR '':'' \<notin> set name" and id: "get_action_type_id name = (True, int k)" by auto
  have e2: "hd (split_scan (CHR '':'') [] (f @ extra)) = f"
    using assms(5,6) by (rule split_scan_field)
  have ne: "strcmp f ''NEW'' \<noteq> 0"
    using assms(3,4) by (simp add: strcmp_eq cstring_def)
  have rng: "int k > PANEL_ACTION_NONE \<and> int k < PANEL_ACTION_LAST"
    using assms(1) by (simp add: action_consts)
  show ?thesis
    using ne rng by (subst decode_token[OF n]) (simp add: e2 id Let_def)
qed

lemma lower_lock: "map g_ascii_tolower ''lock'' = panel_action_type ! 1"
  by (simp add: panel_action_type_def g_ascii_tolower_def)

text \<open>
  Claim C2. A button of type Lock at applet index 3 is encoded as \<open>ACTION:lock:3\<close>.
  Decoding \<open>ACTION:lock:3\<close> creates a Lock button, writes 3 as the index of the applet
  to remove and returns true; decoding \<open>ACTION:lock:NEW\<close> creates a Lock button,
  writes no index and returns false; \<open>ACTION:bogus:NEW\<close> and \<open>NOTACTION:lock:NEW\<close>
  are rejected: false is returned, nothing is written and nothing is created. (A
  \<open>long\<close> has at least 32 bits.)
\<close>

theorem drag_token_examples:
  assumes "32 \<le> LONG_BIT cfg" and "priv_type button = PANEL_ACTION_LOCK"
  shows "panel_action_button_drag_data_get button 3 = ''ACTION:lock:3''
   \<and> panel_action_button_load_from_drag cfg profile toplevel position ''ACTION:lock:3'' =
       \<lparr>retval = True, old_applet_idx = Some 3,
        profile_after = profile @ [(toplevel, position, PANEL_ACTION_LOCK)]\<rparr>
   \<and> panel_action_button_load_from_drag cfg profile toplevel position ''ACTION:lock:NEW'' =
       \<lparr>retval = False, old_applet_idx = None,
        profile_after = profile @ [(toplevel, position, PANEL_ACTION_LOCK)]\<rparr>
   \<and> panel_action_button_load_from_drag cfg profile toplevel position ''ACTION:bogus:NEW'' =
       \<lparr>retval = False, old_applet_idx = None, profile_after = profile\<rparr>
   \<and> panel_action_button_load_from_drag cfg profile toplevel position ''NOTACTION:lock:NEW'' =
       \<lparr>retval = False, old_applet_idx = None, profile_after = profile\<rparr>"
proof -
  have enc: "panel_action_button_drag_data_get button 3 = ''ACTION:lock:3''"
    using assms(2)
    by (simp add: panel_action_button_drag_data_get_def get_action_type_name_def action_consts
        panel_action_type_def printf_s_def decimal_3)
  have "panel_action_button_load_from_drag cfg profile toplevel position
          (''ACTION:'' @ ''lock'' @ '':'' @ ''3'' @ []) =
        \<lparr>retval = True, old_applet_idx = Some (gint_of_long (strtol (LONG_BIT cfg) ''3'')),
         profile_after = profile @ [(toplevel, position, int 1)]\<rparr>"
    by (rule decode_moved[OF _ lower_lock]) (simp_all add: cstring_def)
  then have d3: "panel_action_button_load_from_drag cfg profile toplevel position
      ''ACTION:lock:3'' =
      \<lparr>retval = True, old_applet_idx = Some 3,
       profile_after = profile @ [(toplevel, position, PANEL_ACTION_LOCK)]\<rparr>"
    using assms(1) by (simp add: strtol_3 gint_of_long_def PANEL_ACTION_LOCK_def)
  have "panel_action_button_load_from_drag cfg profile toplevel position
          (''ACTION:'' @ ''lock'' @ '':'' @ ''NEW'') =
        \<lparr>retval = False, old_applet_idx = None,
         profile_after = profile @ [(toplevel, position, int 1)]\<rparr>"
    by (rule decode_new[OF _ lower_lock]) simp
  then have dn: "panel_action_button_load_from_drag cfg profile toplevel position
      ''ACTION:lock:NEW'' =
      \<lparr>retval = False, old_applet_idx = None,
       profile_after = profile @ [(toplevel, position, PANEL_ACTION_LOCK)]\<rparr>"
    by (simp add: PANEL_ACTION_LOCK_def)
  have "get_action_type_id ''bogus'' = (False, 0)"
    by (subst get_action_type_id_lower) (simp_all add: cstring_def g_ascii_tolower_def)
  then have "panel_action_button_load_from_drag cfg profile toplevel position
          (''ACTION:'' @ ''bogus'' @ '':'' @ ''NEW'') =
        \<lparr>retval = False, old_applet_idx = None, profile_after = profile\<rparr>"
    by (subst decode_token) (simp_all add: Let_def)
  then have db: "panel_action_button_load_from_drag cfg profile toplevel position
      ''ACTION:bogus:NEW'' = \<lparr>retval = False, old_applet_idx = None, profile_after = profile\<rparr>"
    by simp
  have dp: "panel_action_button_load_from_drag cfg profile toplevel position
      ''NOTACTION:lock:NEW'' = \<lparr>retval = False, old_applet_idx = None, profile_after = profile\<rparr>"
    by (simp add: panel_action_button_load_from_drag_def uchar_def)
  from enc d3 dn db dp show ?thesis by simp
qed

text \<open>An instance on the 64-bit build, with a button bound to Lock.\<close>

theorem drag_token_examples_witness:
  "32 \<le> LONG_BIT example_config
   \<and> priv_type (fresh_button\<lparr>priv_type := PANEL_ACTION_LOCK\<rparr>) = PANEL_ACTION_LOCK
   \<and> panel_action_button_drag_data_get (fresh_button\<lparr>priv_type := PANEL_ACTION_LOCK\<rparr>) 3 =
       ''ACTION:lock:3''
   \<and> panel_action_button_load_from_drag example_config [] ''toplevel'' 0 ''ACTION:lock:3'' =
       \<lparr>retval = True, old_applet_idx = Some 3,
        profile_after = [(''toplevel'', 0, PANEL_ACTION_LOCK)]\<rparr>"
  using drag_token_examples[of example_config "fresh_button\<lparr>priv_type := PANEL_ACTION_LOCK\<rparr>"
      "[]" "''toplevel''" 0]
  by (simp add: example_config_def)

text \<open>
  Claim C3. A drag string that does not begin with \<open>ACTION:\<close>, or that has fewer than
  three fields between colons, or whose second field equals no type name when letter
  case is ignored, is rejected: the decoder returns false, writes nothing to the index
  of the applet to remove, and leaves the profile as it was, so no button is created.
\<close>

theorem load_from_drag_rejects:
  assumes "cstring drag_string"
    and "take 7 drag_string \<noteq> ''ACTION:''
         \<or> length (g_strsplit drag_string (CHR '':'')) < 3
         \<or> map g_ascii_tolower (g_strsplit drag_string (CHR '':'') ! 1)
              \<notin> set panel_action_type"
  shows "panel_action_button_load_from_drag cfg profile toplevel position drag_string =
         \<lparr>retval = False, old_applet_idx = None, profile_after = profile\<rparr>"
proof (cases "strncmp drag_string ''ACTION:'' (length ''ACTION:'') = 0")
  case False
  then show ?thesis by (simp add: panel_action_button_load_from_drag_def)
next
  case True
  then have pre: "take 7 drag_string = ''ACTION:''"
    using strncmp_prefix[of "''ACTION:''" drag_string]
    by (simp add: cstring_def eval_nat_numeral)
  let ?es = "g_strsplit drag_string (CHR '':'')"
  show ?thesis
  proof (cases "length ?es < 3")
    case True
    then have "element ?es 1 = None \<or> element ?es 2 = None" by (simp add: element_def)
    then show ?thesis
      by (auto simp: panel_action_button_load_from_drag_def Let_def split: option.splits)
  next
    case False
    define e1 where "e1 = ?es ! 1"
    from False pre assms(2) have bad: "map g_ascii_tolower e1 \<notin> set panel_action_type"
      by (simp add: e1_def)
    from False have "e1 \<in> set ?es" by (simp add: e1_def)
    moreover have "drag_string \<noteq> []" using pre by auto
    ultimately have "e1 \<in> set (split_scan (CHR '':'') [] drag_string)"
      by (simp add: g_strsplit_def)
    then have c: "cstring e1" using assms(1) split_scan_cstring by blast
    have id: "get_action_type_id e1 = (False, 0)"
      using bad by (simp add: get_action_type_id_lower[OF c] panel_action_type_def Let_def)
    from False have el: "element ?es 1 = Some e1" "element ?es 2 = Some (?es ! 2)"
      by (simp_all add: element_def e1_def)
    show ?thesis
      unfolding panel_action_button_load_from_drag_def Let_def el
      by (simp add: id)
  qed
qed

text \<open>One instance for each of the three ways a token is malformed.\<close>

theorem load_from_drag_rejects_witness:
  "cstring ''NOTACTION:lock:NEW'' \<and> take 7 ''NOTACTION:lock:NEW'' \<noteq> ''ACTION:''
   \<and> panel_action_button_load_from_drag example_config [] ''toplevel'' 0 ''NOTACTION:lock:NEW'' =
       \<lparr>retval = False, old_applet_idx = None, profile_after = []\<rparr>
   \<and> cstring ''ACTION:lock'' \<and> length (g_strsplit ''ACTION:lock'' (CHR '':'')) < 3
   \<and> panel_action_button_load_from_drag example_config [] ''toplevel'' 0 ''ACTION:lock'' =
       \<lparr>retval = False, old_applet_idx = None, profile_after = []\<rparr>
   \<and> cstring ''ACTION:bogus:NEW''
   \<and> map g_ascii_tolower (g_strsplit ''ACTION:bogus:NEW'' (CHR '':'') ! 1)
        \<notin> set panel_action_type
   \<and> panel_action_button_load_from_drag example_config [] ''toplevel'' 0 ''ACTION:bogus:NEW'' =
       \<lparr>retval = False, old_applet_idx = None, profile_after = []\<rparr>"
proof -
  have a: "cstring ''NOTACTION:lock:NEW''" "cstring ''ACTION:lock''" "cstring ''ACTION:bogus:NEW''"
    by (simp_all add: cstring_def)
  have b1: "take 7 ''NOTACTION:lock:NEW'' \<noteq> ''ACTION:''" by simp
  have b2: "length (g_strsplit ''ACTION:lock'' (CHR '':'')) < 3"
    by (simp add: g_strsplit_def)
  have b3: "map g_ascii_tolower (g_strsplit ''ACTION:bogus:NEW'' (CHR '':'') ! 1)
        \<notin> set panel_action_type"
    by (simp add: g_strsplit_def panel_action_type_def g_ascii_tolower_def)
  show ?thesis
    using a b1 b2 b3
      load_from_drag_rejects[OF a(1) disjI1, OF b1, of example_config "[]" "''toplevel''" 0]
      load_from_drag_rejects[OF a(2) disjI2, OF disjI1, OF b2,
        of example_config "[]" "''toplevel''" 0]
      load_from_drag_rejects[OF a(3) disjI2, OF disjI2, OF b3,
        of example_config "[]" "''toplevel''" 0]
    by simp
qed

text \<open>
  Claim C8, as amended. Let the second field of a token equal, letter case ignored, the
  name of a type other than None (the type of index \<open>k\<close>), and let the third field
  \<open>f\<close> be any string without a colon other than \<open>NEW\<close>, followed by nothing or by
  further fields. Then the decoder returns true, creates a new button of that type, and
  writes to the index of the applet to remove the \<open>strtol\<close> value of \<open>f\<close> in base 10,
  converted to \<open>int\<close>. That index is 0 when \<open>f\<close>, after leading white space and one
  optional sign, has no digit. (The specification says "0 when f has no leading
  digits"; a field such as \<open>-5\<close> has none and gives -5.)
\<close>

theorem load_from_drag_moved:
  assumes "k \<in> {1..7}" and "map g_ascii_tolower name = panel_action_type ! k"
    and "cstring f" and "f \<noteq> ''NEW''" and "CHR '':'' \<notin> set f"
    and "extra = [] \<or> hd extra = CHR '':''"
  shows "panel_action_button_load_from_drag cfg profile toplevel position
           (''ACTION:'' @ name @ '':'' @ f @ extra) =
         \<lparr>retval = True,
          old_applet_idx = Some (gint_of_long (strtol (LONG_BIT cfg) f)),
          profile_after = panel_action_button_create profile toplevel position (int k)\<rparr>
       \<and> (strtol_digits f = [] \<longrightarrow> gint_of_long (strtol (LONG_BIT cfg) f) = 0)"
  using decode_moved[OF assms, of cfg profile toplevel position]
  by (simp add: panel_action_button_create_def strtol_no_digits gint_of_long_def)

text \<open>
  Two instances: a token with a signed index and trailing fields, and a token whose
  third field has no digit.
\<close>

theorem load_from_drag_moved_witness:
  "map g_ascii_tolower ''Force-Quit'' = panel_action_type ! 5
   \<and> cstring ''-5'' \<and> ''-5'' \<noteq> ''NEW'' \<and> CHR '':'' \<notin> set ''-5''
   \<and> panel_action_button_load_from_drag example_config [] ''toplevel'' 0
        ''ACTION:Force-Quit:-5:x:y'' =
       \<lparr>retval = True, old_applet_idx = Some (- 5),
        profile_after = [(''toplevel'', 0, PANEL_ACTION_FORCE_QUIT)]\<rparr>
   \<and> map g_ascii_tolower ''run'' = panel_action_type ! 3
   \<and> cstring ''abc'' \<and> ''abc'' \<noteq> ''NEW'' \<and> CHR '':'' \<notin> set ''abc''
   \<and> strtol_digits ''abc'' = []
   \<and> panel_action_button_load_from_drag example_config [] ''toplevel'' 0 ''ACTION:run:abc'' =
       \<lparr>retval = True, old_applet_idx = Some 0,
        profile_after = [(''toplevel'', 0, PANEL_ACTION_RUN)]\<rparr>"
proof -
  have n1: "map g_ascii_tolower ''Force-Quit'' = panel_action_type ! 5"
    and n2: "map g_ascii_tolower ''run'' = panel_action_type ! 3"
    by code_simp+
  have f1: "cstring ''-5''" "''-5'' \<noteq> ''NEW''" "CHR '':'' \<notin> set ''-5''"
    and f2: "cstring ''abc''" "''abc'' \<noteq> ''NEW''" "CHR '':'' \<notin> set ''abc''"
    by (simp_all add: cstring_def)
  have d: "strtol_digits ''abc'' = []"
    by (simp add: strtol_digits_def strtol_sign_def isspace_def isdigit_def)
  have v: "gint_of_long (strtol (LONG_BIT example_config) ''-5'') = - 5"
    by (simp add: strtol_def strtol_digits_def strtol_sign_def isspace_def isdigit_def
        digit_value_def uchar_def gint_of_long_def example_config_def Let_def)
  have k: "(5::nat) \<in> {1..7}" "(3::nat) \<in> {1..7}" by simp_all
  have e: "'':x:y'' = [] \<or> hd '':x:y'' = CHR '':''" "([]::string) = [] \<or> hd [] = CHR '':''"
    by simp_all
  show ?thesis
    using n1 n2 f1 f2 d v
      load_from_drag_moved[OF k(1) n1 f1 e(1), of example_config "[]" "''toplevel''" 0]
      load_from_drag_moved[OF k(2) n2 f2 e(2), of example_config "[]" "''toplevel''" 0]
    by (simp add: panel_action_button_create_def action_consts)
qed

text \<open>
  The field \<open>-5\<close> has no leading digit, so the specification's sentence gives the index
  0; the decoder writes -5.
\<close>

theorem load_from_drag_moved_counterexample:
  "old_applet_idx
     (panel_action_button_load_from_drag example_config [] ''toplevel'' 0 ''ACTION:lock:-5'')
     = Some (- 5)
   \<and> moved_index_as_specified (LONG_BIT example_config) ''-5'' = 0"
  by code_simp

text \<open>
  Claim C9. A token that names the type None, in any letter case, is rejected whatever
  follows the name: the lookup succeeds with the index 0, the range check of the
  decoder then fails, false is returned, nothing is written and no button is created.
\<close>

theorem load_from_drag_none:
  assumes "map g_ascii_tolower name = ''none''"
  shows "get_action_type_id name = (True, PANEL_ACTION_NONE)
       \<and> panel_action_button_load_from_drag cfg profile toplevel position
           (''ACTION:'' @ name @ '':'' @ rest) =
         \<lparr>retval = False, old_applet_idx = None, profile_after = profile\<rparr>"
proof -
  have c: "cstring name" and n: "CHR '':'' \<notin> set name"
    using assms cstring_tolower[of name] colon_tolower[of name] by (auto simp: cstring_def)
  have id: "get_action_type_id name = (True, 0)"
    using assms by (simp add: get_action_type_id_lower[OF c])
  then show ?thesis
    by (subst decode_token[OF n]) (simp add: Let_def PANEL_ACTION_NONE_def)
qed

text \<open>An instance in mixed case.\<close>

theorem load_from_drag_none_witness:
  "map g_ascii_tolower ''NoNe'' = ''none''
   \<and> get_action_type_id ''NoNe'' = (True, PANEL_ACTION_NONE)
   \<and> panel_action_button_load_from_drag example_config [] ''toplevel'' 0 ''ACTION:NoNe:NEW'' =
       \<lparr>retval = False, old_applet_idx = None, profile_after = []\<rparr>"
proof -
  have h: "map g_ascii_tolower ''NoNe'' = ''none''" by code_simp
  show ?thesis
    using h load_from_drag_none[OF h, of example_config "[]" "''toplevel''" 0 "''NEW''"]
    by simp
qed

end
